theory Spec2Isabelle
  imports Main "HOL-Library.Sublist"
begin

section \<open>Values and errors of the platform\<close>

text \<open>
  The repository is a small Next.js application: a server action that appends a comment
  to \<^verbatim>\<open>comments.json\<close> (\<^verbatim>\<open>src/app/comments/action.ts\<close>), a route handler that
  serves that file (\<^verbatim>\<open>src/app/api/comments/route.ts\<close>), pages that fetch and filter the
  comments (\<^verbatim>\<open>src/app/search/page.tsx\<close>), an optimistic list of comments and a
  validated feedback form.

  A JavaScript string is a list of code units of any type \<open>'c\<close> (16-bit units on the
  platform); the names of form fields and tags, fixed in the code, are \<open>string\<close>s.
  An exception (a rejected promise of an
  \<^verbatim>\<open>async\<close> function) is a value \<open>Inl e\<close> of a sum type, a normal return is \<open>Inr v\<close>.
\<close>

datatype exn = IOError | SyntaxError | TypeError

text \<open>
  The values \<^verbatim>\<open>JSON.parse\<close> can return. The value of a number is never inspected
  by the code.
\<close>

datatype 'c json =
    JNull
  | JBoolean bool
  | JNumber int
  | JString "'c list"
  | JArray "'c json list"
  | JObject "('c list \<times> 'c json) list"

text \<open>
  The content of a file or of a response body: the text of a JSON value (\<open>Document\<close>), a
  byte order mark followed by the text of a JSON value (\<open>WithBOM\<close>), or a text that is
  neither (\<open>Malformed\<close>: the empty text, a part of a JSON text, anything else). Texts are
  identified with the value they denote: \<^verbatim>\<open>JSON.stringify\<close> writes the text of a value,
  with no byte order mark, and \<^verbatim>\<open>JSON.parse\<close> reads that value back, which holds for
  the strings, \<^verbatim>\<open>null\<close> and arrays the code writes. \<^verbatim>\<open>JSON.parse\<close> does not accept a
  byte order mark, and \<^verbatim>\<open>readFile(..., 'utf8')\<close> does not remove one.
\<close>

datatype 'c document = Malformed | Document "'c json" | WithBOM "'c json"

definition JSON_parse :: "'c document \<Rightarrow> exn + 'c json" where
  "JSON_parse d =
     (case d of
        Malformed \<Rightarrow> Inl SyntaxError
      | Document v \<Rightarrow> Inr v
      | WithBOM v \<Rightarrow> Inl SyntaxError)"

definition JSON_stringify :: "'c json \<Rightarrow> 'c document" where
  "JSON_stringify v = Document v"

text \<open>
  An entry of a \<^verbatim>\<open>FormData\<close> is a string or a file; \<^verbatim>\<open>formData.get(name)\<close> is the
  first entry of that name, \<^verbatim>\<open>null\<close> (\<open>None\<close>) when there is none.
\<close>

datatype 'c FormDataEntryValue = Text "'c list" | File

type_synonym 'c FormData = "(string \<times> 'c FormDataEntryValue) list"

definition FormData_get :: "'c FormData \<Rightarrow> string \<Rightarrow> 'c FormDataEntryValue option" where
  "FormData_get formData name = map_of formData name"

text \<open>
  How \<^verbatim>\<open>JSON.stringify\<close> serialises what \<^verbatim>\<open>formData.get\<close> returned: \<^verbatim>\<open>null\<close> as
  \<^verbatim>\<open>null\<close>, a string as a string, a \<^verbatim>\<open>File\<close> (no enumerable property of its own) as
  \<^verbatim>\<open>{}\<close>.
\<close>

definition toJSON :: "'c FormDataEntryValue option \<Rightarrow> 'c json" where
  "toJSON v = (case v of None \<Rightarrow> JNull | Some (Text s) \<Rightarrow> JString s | Some File \<Rightarrow> JObject [])"

text \<open>
  The spread \<^verbatim>\<open>[...x]\<close>: the elements of an array, the characters of a string, and a
  \<^verbatim>\<open>TypeError\<close> for a value that is not iterable.
\<close>

definition spread :: "'c json \<Rightarrow> exn + 'c json list" where
  "spread x =
     (case x of
        JArray xs \<Rightarrow> Inr xs
      | JString s \<Rightarrow> Inr (map (\<lambda>c. JString [c]) s)
      | _ \<Rightarrow> Inl TypeError)"

section \<open>Strings and arrays\<close>

text \<open>
  \<^verbatim>\<open>String.prototype.includes\<close>: the search string is compared with the text at
  position 0, 1, ... until it matches or the text ends.
\<close>

fun String_includes :: "'c list \<Rightarrow> 'c list \<Rightarrow> bool" where
  "String_includes [] q = (q = [])"
| "String_includes (c # s) q = (prefix q (c # s) \<or> String_includes s q)"

text \<open>
  \<^verbatim>\<open>Array.prototype.filter\<close>: the callback is called on the elements from left to
  right, an element is kept when the callback returns true, and an exception of the
  callback ends the loop.
\<close>

fun Array_filter :: "('a \<Rightarrow> exn + bool) \<Rightarrow> 'a list \<Rightarrow> exn + 'a list" where
  "Array_filter f [] = Inr []"
| "Array_filter f (x # xs) =
     (case f x of
        Inl e \<Rightarrow> Inl e
      | Inr keep \<Rightarrow>
          (case Array_filter f xs of
             Inl e \<Rightarrow> Inl e
           | Inr ys \<Rightarrow> Inr (if keep then x # ys else ys)))"

section \<open>The record store and the invalidation signal\<close>

text \<open>
  The state the server code reads and writes: the content of \<^verbatim>\<open>comments.json\<close>
  (\<open>None\<close> when the file cannot be read), whether and how the next \<^verbatim>\<open>writeFile\<close>
  fails, and the trace of the effects so far: a completed write of the file, a call of
  \<^verbatim>\<open>revalidateTag\<close>.

  \<^verbatim>\<open>writeFile\<close> opens the file, which truncates it, and then writes the text. A write
  that fails at the open (no permission) leaves the file as it was; a write that fails
  after the open (disk full) leaves the file empty or with a part of the text, which is
  not JSON.
\<close>

datatype fault = FailsAtOpen | FailsAfterTruncation

datatype 'c event = Wrote "'c document" | Revalidated string

record 'c world =
  comments_json :: "'c document option"
  write_fault :: "fault option"
  events :: "'c event list"

definition readFile :: "'c world \<Rightarrow> exn + 'c document" where
  "readFile w = (case comments_json w of None \<Rightarrow> Inl IOError | Some d \<Rightarrow> Inr d)"

definition writeFile :: "'c world \<Rightarrow> 'c document \<Rightarrow> (exn + unit) \<times> 'c world" where
  "writeFile w d =
     (case write_fault w of
        None \<Rightarrow> (Inr (), w\<lparr>comments_json := Some d, events := events w @ [Wrote d]\<rparr>)
      | Some FailsAtOpen \<Rightarrow> (Inl IOError, w)
      | Some FailsAfterTruncation \<Rightarrow> (Inl IOError, w\<lparr>comments_json := Some Malformed\<rparr>))"

definition revalidateTag :: "'c world \<Rightarrow> string \<Rightarrow> 'c world" where
  "revalidateTag w tag = w\<lparr>events := events w @ [Revalidated tag]\<rparr>"

subsection \<open>\<^verbatim>\<open>src/app/comments/action.ts\<close>\<close>

text \<open>
  \<^verbatim>\<open>
  export async function submitComment(formData: FormData) {
    const existingComments = JSON.parse(await readFile('comments.json', 'utf8'));
    const comment = formData.get('comment') as string;
    await writeFile('comments.json', JSON.stringify([...(existingComments as string[]), comment]));
    revalidateTag('comments');
  }
  \<close>
  The function has no \<^verbatim>\<open>try\<close>: an exception of any step ends it.
\<close>

definition submitComment :: "'c world \<Rightarrow> 'c FormData \<Rightarrow> (exn + unit) \<times> 'c world" where
  "submitComment w formData =
     (case readFile w of
        Inl e \<Rightarrow> (Inl e, w)
      | Inr text \<Rightarrow>
     (case JSON_parse text of
        Inl e \<Rightarrow> (Inl e, w)
      | Inr existingComments \<Rightarrow>
     (let comment = FormData_get formData ''comment'' in
     (case spread existingComments of
        Inl e \<Rightarrow> (Inl e, w)
      | Inr items \<Rightarrow>
     (case writeFile w (JSON_stringify (JArray (items @ [toJSON comment]))) of
        (Inl e, w') \<Rightarrow> (Inl e, w')
      | (Inr u, w') \<Rightarrow> (Inr (), revalidateTag w' ''comments''))))))"

subsection \<open>\<^verbatim>\<open>src/app/api/comments/route.ts\<close>\<close>

text \<open>
  \<^verbatim>\<open>
  export async function GET() {
    const comments = await readFile('comments.json');
    return new Response(comments);
  }
  \<close>
  The handler does not parse what it read: the body of the response is the content of
  the file.
\<close>

record 'c Response =
  status :: nat
  body :: "'c document"

definition GET :: "'c world \<Rightarrow> exn + 'c Response" where
  "GET w =
     (case readFile w of
        Inl e \<Rightarrow> Inl e
      | Inr comments \<Rightarrow> Inr \<lparr>status = 200, body = comments\<rparr>)"

text \<open>
  \<^verbatim>\<open>fetch('http://localhost:3000/api/comments')\<close> reaches the handler and runs it; a
  handler that throws is answered with status 500 and a body that is not JSON.
  \<^verbatim>\<open>response.json()\<close> decodes the body as UTF-8, which removes a byte order mark at
  its start, and parses the rest, whatever the status.
\<close>

definition fetch :: "'c world \<Rightarrow> 'c Response" where
  "fetch w = (case GET w of Inl e \<Rightarrow> \<lparr>status = 500, body = Malformed\<rparr> | Inr r \<Rightarrow> r)"

definition response_json :: "'c Response \<Rightarrow> exn + 'c json" where
  "response_json r =
     (case body r of
        WithBOM v \<Rightarrow> JSON_parse (Document v)
      | d \<Rightarrow> JSON_parse d)"

subsection \<open>\<^verbatim>\<open>src/app/search/page.tsx\<close>\<close>

text \<open>
  \<^verbatim>\<open>
  async function getComments(searchQuery?: string): Promise<string[]> {
    const response = await fetch('http://localhost:3000/api/comments', { next: { tags: ['comments'] } });
    const comments = await response.json();
    if (!searchQuery) return comments;
    return comments.filter((comment: string) => comment.toLowerCase().includes(searchQuery.toLowerCase()));
  }
  \<close>
  \<^verbatim>\<open>String.prototype.toLowerCase\<close> is a function of the platform (the case mapping of
  Unicode), not of the repository: it is the parameter \<open>toLowerCase\<close>, any function on
  strings. \<open>matchesQuery\<close> is the callback of the last line: \<^verbatim>\<open>toLowerCase\<close> is a method
  of strings only. \<open>filterComments\<close> is the last two lines: an absent and an empty query
  are falsy, and \<^verbatim>\<open>filter\<close> is a method of arrays only.
\<close>

definition matchesQuery :: "('c list \<Rightarrow> 'c list) \<Rightarrow> 'c list \<Rightarrow> 'c json \<Rightarrow> exn + bool" where
  "matchesQuery toLowerCase searchQuery comment =
     (case comment of
        JString s \<Rightarrow> Inr (String_includes (toLowerCase s) (toLowerCase searchQuery))
      | _ \<Rightarrow> Inl TypeError)"

definition filterComments ::
  "('c list \<Rightarrow> 'c list) \<Rightarrow> 'c json \<Rightarrow> 'c list option \<Rightarrow> exn + 'c json" where
  "filterComments toLowerCase comments searchQuery =
     (case searchQuery of
        None \<Rightarrow> Inr comments
      | Some q \<Rightarrow>
          if q = [] then Inr comments
          else (case comments of
                  JArray xs \<Rightarrow>
                    (case Array_filter (matchesQuery toLowerCase q) xs of
                       Inl e \<Rightarrow> Inl e
                     | Inr ys \<Rightarrow> Inr (JArray ys))
                | _ \<Rightarrow> Inl TypeError))"

definition getComments ::
  "('c list \<Rightarrow> 'c list) \<Rightarrow> 'c world \<Rightarrow> 'c list option \<Rightarrow> exn + 'c json" where
  "getComments toLowerCase w searchQuery =
     (let response = fetch w in
      (case response_json response of
         Inl e \<Rightarrow> Inl e
       | Inr comments \<Rightarrow> filterComments toLowerCase comments searchQuery))"

subsection \<open>The optimistic list of comments\<close>

text \<open>
  \<^verbatim>\<open>
  const [optimisticComments, addOptimisticComment] = useOptimistic(comments,
    (state, newComment: string) => [...state, newComment]);
  \<close>
  \<open>updateFn\<close> is the reducer given to \<^verbatim>\<open>useOptimistic\<close>. While the actions are
  pending, the optimistic state is the reducer applied to the state passed in and to
  each value given to \<^verbatim>\<open>addOptimisticComment\<close>, in the order of the calls.
\<close>

definition updateFn :: "'a list \<Rightarrow> 'a \<Rightarrow> 'a list" where
  "updateFn state newComment = state @ [newComment]"

definition useOptimistic :: "'s \<Rightarrow> ('s \<Rightarrow> 'v \<Rightarrow> 's) \<Rightarrow> 'v list \<Rightarrow> 's" where
  "useOptimistic passthrough reducer pending = foldl reducer passthrough pending"

definition optimisticComments :: "'a list \<Rightarrow> 'a list \<Rightarrow> 'a list" where
  "optimisticComments comments pending = useOptimistic comments updateFn pending"

subsection \<open>The feedback action (README, section useActionState)\<close>

text \<open>
  \<^verbatim>\<open>
  const feedbackSchema = z.object({
    name: z.string().min(2).max(100),
    email: z.string().email(),
    feedback: z.string().min(10).max(1000),
  });
  \<close>
  Modelled from the spec: the schema library (zod) that \<^verbatim>\<open>z.string\<close>, \<^verbatim>\<open>min\<close>,
  \<^verbatim>\<open>max\<close>, \<^verbatim>\<open>email\<close>, \<^verbatim>\<open>safeParse\<close> and \<^verbatim>\<open>flatten\<close> come from is not among the
  sources. The schema of a field is a list of constraints; the constraints of a field are
  evaluated independently and every violated one is collected, not just the first. A value
  that is not a string (an absent field, a file) is reported as \<open>InvalidType\<close> and no
  constraint is run on it. An object schema parses every key of its shape and collects the
  issues of all keys, each under the name of its key. An issue stands for its message. The
  pattern of \<^verbatim>\<open>email()\<close> is a parameter, \<open>emailRegex\<close>.
\<close>

datatype ZodIssue = InvalidType | TooSmall nat | TooBig nat | InvalidEmail

datatype ZodStringCheck = CheckMin nat | CheckMax nat | CheckEmail

definition runCheck :: "('c list \<Rightarrow> bool) \<Rightarrow> ZodStringCheck \<Rightarrow> 'c list \<Rightarrow> ZodIssue list" where
  "runCheck emailRegex check s =
     (case check of
        CheckMin n \<Rightarrow> if length s < n then [TooSmall n] else []
      | CheckMax n \<Rightarrow> if n < length s then [TooBig n] else []
      | CheckEmail \<Rightarrow> if emailRegex s then [] else [InvalidEmail])"

definition ZodString_parse ::
  "('c list \<Rightarrow> bool) \<Rightarrow> ZodStringCheck list \<Rightarrow> 'c FormDataEntryValue option \<Rightarrow> ZodIssue list" where
  "ZodString_parse emailRegex checks input =
     (case input of
        Some (Text s) \<Rightarrow> concat (map (\<lambda>check. runCheck emailRegex check s) checks)
      | _ \<Rightarrow> [InvalidType])"

type_synonym ZodObject = "(string \<times> ZodStringCheck list) list"

type_synonym 'c FormValues = "(string \<times> 'c FormDataEntryValue option) list"

definition property :: "'c FormValues \<Rightarrow> string \<Rightarrow> 'c FormDataEntryValue option" where
  "property obj key = (case map_of obj key of None \<Rightarrow> None | Some v \<Rightarrow> v)"

definition ZodObject_parse ::
  "('c list \<Rightarrow> bool) \<Rightarrow> ZodObject \<Rightarrow> 'c FormValues \<Rightarrow> (string \<times> ZodIssue) list" where
  "ZodObject_parse emailRegex shape obj =
     concat (map (\<lambda>(key, checks).
       map (Pair key) (ZodString_parse emailRegex checks (property obj key))) shape)"

text \<open>
  \<^verbatim>\<open>safeParse\<close> returns \<^verbatim>\<open>{ success: true, data }\<close> or \<^verbatim>\<open>{ success: false, error }\<close>;
  the field that is not set is \<^verbatim>\<open>undefined\<close> (\<open>None\<close>). The data are the values of the
  keys of the shape.
\<close>

record 'c SafeParseReturn =
  success :: bool
  error :: "(string \<times> ZodIssue) list option"
  data :: "'c FormValues option"

definition safeParse ::
  "('c list \<Rightarrow> bool) \<Rightarrow> ZodObject \<Rightarrow> 'c FormValues \<Rightarrow> 'c SafeParseReturn" where
  "safeParse emailRegex shape obj =
     (let issues = ZodObject_parse emailRegex shape obj in
      if issues = []
      then \<lparr>success = True, error = None,
            data = Some (map (\<lambda>(key, checks). (key, property obj key)) shape)\<rparr>
      else \<lparr>success = False, error = Some issues, data = None\<rparr>)"

text \<open>
  \<^verbatim>\<open>error.flatten().fieldErrors\<close>: for each key the messages of its issues, in their
  order; a key with no issue is not a property of the object.
\<close>

definition fieldErrors :: "(string \<times> ZodIssue) list \<Rightarrow> string \<Rightarrow> ZodIssue list option" where
  "fieldErrors issues key =
     (case map snd (filter (\<lambda>(path, issue). path = key) issues) of
        [] \<Rightarrow> None
      | messages \<Rightarrow> Some messages)"

definition feedbackSchema :: ZodObject where
  "feedbackSchema =
     [(''name'', [CheckMin 2, CheckMax 100]),
      (''email'', [CheckEmail]),
      (''feedback'', [CheckMin 10, CheckMax 1000])]"

text \<open>
  \<^verbatim>\<open>
  export async function submitFeedback(_: unknown, formData: FormData) {
    const formValues = {
      name: formData.get('name') as string,
      email: formData.get('email') as string,
      feedback: formData.get('feedback') as string,
    };
    const { success, error, data } = feedbackSchema.safeParse(formValues);
    if (!success) {
      return { errors: error.flatten().fieldErrors, values: formValues };
    }
    console.log(data);
    return { success: true };
  }
  \<close>
  The result is \<^verbatim>\<open>{ errors, values }\<close> (\<open>Invalid errors values\<close>) or
  \<^verbatim>\<open>{ success: true }\<close> (\<open>Success\<close>). Calling \<^verbatim>\<open>flatten\<close> on an \<^verbatim>\<open>error\<close> that is
  \<^verbatim>\<open>undefined\<close> would be a \<^verbatim>\<open>TypeError\<close>.
\<close>

datatype 'c FeedbackState =
    Invalid "string \<Rightarrow> ZodIssue list option" "'c FormValues"
  | Success

definition formValuesOf :: "'c FormData \<Rightarrow> 'c FormValues" where
  "formValuesOf formData =
     [(''name'', FormData_get formData ''name''),
      (''email'', FormData_get formData ''email''),
      (''feedback'', FormData_get formData ''feedback'')]"

definition submitFeedback ::
  "('c list \<Rightarrow> bool) \<Rightarrow> 'a \<Rightarrow> 'c FormData \<Rightarrow> exn + 'c FeedbackState" where
  "submitFeedback emailRegex prev formData =
     (let formValues = formValuesOf formData;
          result = safeParse emailRegex feedbackSchema formValues in
      if \<not> success result
      then (case error result of
              None \<Rightarrow> Inl TypeError
            | Some err \<Rightarrow> Inr (Invalid (fieldErrors err) formValues))
      else Inr Success)"

section \<open>Lemmas on strings and arrays\<close>

lemma String_includes_iff:
  "String_includes s q \<longleftrightarrow> (\<exists>pre post. s = pre @ q @ post)"
proof (induction s)
  case Nil
  then show ?case by auto
next
  case (Cons c s)
  show ?case
  proof
    assume "String_includes (c # s) q"
    then consider "prefix q (c # s)" | "String_includes s q" by auto
    then show "\<exists>pre post. c # s = pre @ q @ post"
    proof cases
      case 1
      then obtain post where "c # s = q @ post" by (auto simp: prefix_def)
      then have "c # s = [] @ q @ post" by simp
      then show ?thesis by blast
    next
      case 2
      with Cons.IH obtain pre post where "s = pre @ q @ post" by blast
      then have "c # s = (c # pre) @ q @ post" by simp
      then show ?thesis by blast
    qed
  next
    assume "\<exists>pre post. c # s = pre @ q @ post"
    then obtain pre post where eq: "c # s = pre @ q @ post" by blast
    show "String_includes (c # s) q"
    proof (cases pre)
      case Nil
      with eq have "prefix q (c # s)" by (simp add: prefix_def)
      then show ?thesis by simp
    next
      case (Cons p pre')
      with eq have "s = pre' @ q @ post" by simp
      with Cons.IH have "String_includes s q" by blast
      then show ?thesis by simp
    qed
  qed
qed

lemma Array_filter_strings:
  "Array_filter (matchesQuery lower q) (map JString records) =
     Inr (map JString (filter (\<lambda>r. String_includes (lower r) (lower q)) records))"
  by (induction records) (auto simp: matchesQuery_def)

lemma getComments_served:
  "comments_json w = Some (Document c) \<Longrightarrow> getComments lower w q = filterComments lower c q"
  by (simp add: getComments_def fetch_def GET_def readFile_def response_json_def JSON_parse_def)

lemma filterComments_strings:
  "q \<noteq> [] \<Longrightarrow> filterComments lower (JArray (map JString records)) (Some q) =
     Inr (JArray (map JString
       (filter (\<lambda>r. \<exists>pre post. lower r = pre @ lower q @ post) records)))"
  by (simp add: filterComments_def Array_filter_strings String_includes_iff)

section \<open>Lemmas on the comment action\<close>

lemma submitComment_persists:
  assumes "comments_json w = Some (Document x)" "spread x = Inr items" "write_fault w = None"
  shows "submitComment w fd =
    (Inr (), w\<lparr>comments_json := Some (Document (JArray (items @ [toJSON (FormData_get fd ''comment'')]))),
               events := events w @ [Wrote (Document (JArray (items @ [toJSON (FormData_get fd ''comment'')]))),
                                     Revalidated ''comments'']\<rparr>)"
  using assms
  by (simp add: submitComment_def readFile_def JSON_parse_def JSON_stringify_def writeFile_def
      revalidateTag_def Let_def)

lemma submitComment_write_fails:
  assumes "comments_json w = Some (Document x)" "spread x = Inr items" "write_fault w = Some f"
  shows "submitComment w fd =
    (Inl IOError, case f of FailsAtOpen \<Rightarrow> w
                          | FailsAfterTruncation \<Rightarrow> w\<lparr>comments_json := Some Malformed\<rparr>)"
  using assms
  by (cases f) (simp_all add: submitComment_def readFile_def JSON_parse_def writeFile_def Let_def)

lemma submitComment_not_read:
  assumes "comments_json w = None \<or> comments_json w = Some Malformed
      \<or> (\<exists>v. comments_json w = Some (WithBOM v))
      \<or> (\<exists>x e. comments_json w = Some (Document x) \<and> spread x = Inl e)"
  shows "\<exists>e. submitComment w fd = (Inl e, w)"
  using assms
  by (auto simp add: submitComment_def readFile_def JSON_parse_def Let_def)

section \<open>Lemmas on the feedback action\<close>

lemma submitFeedback_cases:
  "submitFeedback emailRegex prev fd =
     (if ZodObject_parse emailRegex feedbackSchema (formValuesOf fd) = [] then Inr Success
      else Inr (Invalid (fieldErrors (ZodObject_parse emailRegex feedbackSchema (formValuesOf fd)))
                  (formValuesOf fd)))"
  by (simp add: submitFeedback_def safeParse_def Let_def)

lemma property_formValuesOf:
  "property (formValuesOf fd) ''name'' = FormData_get fd ''name''"
  "property (formValuesOf fd) ''email'' = FormData_get fd ''email''"
  "property (formValuesOf fd) ''feedback'' = FormData_get fd ''feedback''"
  by (simp_all add: property_def formValuesOf_def)

lemma issues_feedbackSchema:
  "ZodObject_parse emailRegex feedbackSchema (formValuesOf fd) =
     map (Pair ''name'') (ZodString_parse emailRegex [CheckMin 2, CheckMax 100] (FormData_get fd ''name''))
     @ map (Pair ''email'') (ZodString_parse emailRegex [CheckEmail] (FormData_get fd ''email''))
     @ map (Pair ''feedback'')
         (ZodString_parse emailRegex [CheckMin 10, CheckMax 1000] (FormData_get fd ''feedback''))"
  by (simp add: ZodObject_parse_def feedbackSchema_def property_formValuesOf)

section \<open>The claims\<close>

text \<open>
  C1. In \<open>submitComment\<close> the invalidation signal for the tag \<^verbatim>\<open>comments\<close> is invoked
  only after the write of the comment log has completed, and on every run in which the
  write succeeds. Every run is one of three: it ends normally, the file holds the document
  written, and the run adds to the trace exactly the write followed by the invalidation of
  \<^verbatim>\<open>comments\<close>; or it ends with an exception and leaves the state as it was; or it ends
  with the exception of a write that failed after truncating the file, and adds nothing to
  the trace. When the file holds an array and the write succeeds, the run is of the first
  kind.
\<close>

theorem revalidate_only_after_write:
  "((\<exists>d. submitComment w fd =
          (Inr (), w\<lparr>comments_json := Some d,
                     events := events w @ [Wrote d, Revalidated ''comments'']\<rparr>))
    \<or> (\<exists>e. submitComment w fd = (Inl e, w))
    \<or> submitComment w fd = (Inl IOError, w\<lparr>comments_json := Some Malformed\<rparr>))
   \<and> (comments_json w = Some (Document (JArray xs)) \<and> write_fault w = None \<longrightarrow>
        submitComment w fd =
          (Inr (), w\<lparr>comments_json :=
                       Some (Document (JArray (xs @ [toJSON (FormData_get fd ''comment'')]))),
                     events := events w @
                       [Wrote (Document (JArray (xs @ [toJSON (FormData_get fd ''comment'')]))),
                        Revalidated ''comments'']\<rparr>))"
proof -
  have runs: "(\<exists>d. submitComment w fd =
          (Inr (), w\<lparr>comments_json := Some d,
                     events := events w @ [Wrote d, Revalidated ''comments'']\<rparr>))
    \<or> (\<exists>e. submitComment w fd = (Inl e, w))
    \<or> submitComment w fd = (Inl IOError, w\<lparr>comments_json := Some Malformed\<rparr>)"
  proof (cases "comments_json w")
    case None
    then show ?thesis using submitComment_not_read [of w fd] by blast
  next
    case (Some d)
    show ?thesis
    proof (cases d)
      case Malformed
      with Some show ?thesis using submitComment_not_read [of w fd] by blast
    next
      case (WithBOM v)
      with Some show ?thesis using submitComment_not_read [of w fd] by blast
    next
      case (Document x)
      show ?thesis
      proof (cases "spread x")
        case (Inl e)
        with Some Document show ?thesis using submitComment_not_read [of w fd] by blast
      next
        case (Inr items)
        from Some Document have held: "comments_json w = Some (Document x)" by simp
        show ?thesis
        proof (cases "write_fault w")
          case None
          from submitComment_persists [OF held Inr None, of fd] show ?thesis by blast
        next
          case (Some f)
          from submitComment_write_fails [OF held Inr Some, of fd] show ?thesis
            by (cases f) simp_all
        qed
      qed
    qed
  qed
  have "spread (JArray xs) = Inr xs"
    by (simp add: spread_def)
  then have persisted: "submitComment w fd =
          (Inr (), w\<lparr>comments_json :=
                       Some (Document (JArray (xs @ [toJSON (FormData_get fd ''comment'')]))),
                     events := events w @
                       [Wrote (Document (JArray (xs @ [toJSON (FormData_get fd ''comment'')]))),
                        Revalidated ''comments'']\<rparr>)"
    if "comments_json w = Some (Document (JArray xs))" "write_fault w = None"
    using that submitComment_persists by blast
  from runs persisted show ?thesis
    by blast
qed

text \<open>
  The empty log, the comment \<^verbatim>\<open>hello\<close> and a write that succeeds: the log becomes
  \<^verbatim>\<open>["hello"]\<close> and the signal is invoked once, after the write.
\<close>

theorem revalidate_only_after_write_witness:
  "submitComment \<lparr>comments_json = Some (Document (JArray [])), write_fault = None, events = []\<rparr>
      [(''comment'', Text ''hello'')]
    = (Inr (), \<lparr>comments_json = Some (Document (JArray [JString ''hello''])), write_fault = None,
                events = [Wrote (Document (JArray [JString ''hello''])), Revalidated ''comments'']\<rparr>)"
  using revalidate_only_after_write [of "\<lparr>comments_json = Some (Document (JArray [])),
      write_fault = None, events = []\<rparr>" "[(''comment'', Text ''hello'')]" "[]"]
  by (simp add: FormData_get_def toJSON_def)

text \<open>
  C2. For every comment log \<open>L\<close> and every comment \<open>c\<close>: when the file holds \<open>L\<close> and the write
  succeeds, \<open>submitComment\<close> ends normally, and afterwards the handler \<open>GET\<close> serves, and
  the read of the pages (\<open>getComments\<close> with no query) returns, exactly \<open>L\<close> followed by \<open>c\<close>:
  the elements of \<open>L\<close> in their order, none changed or removed, and \<open>c\<close> last.
\<close>

theorem append_then_read:
  assumes "comments_json w = Some (Document (JArray (map JString L)))"
    and "write_fault w = None"
    and "FormData_get fd ''comment'' = Some (Text c)"
  shows "fst (submitComment w fd) = Inr ()
    \<and> GET (snd (submitComment w fd)) =
        Inr \<lparr>status = 200, body = Document (JArray (map JString (L @ [c])))\<rparr>
    \<and> getComments toLowerCase (snd (submitComment w fd)) None
        = Inr (JArray (map JString (L @ [c])))"
proof -
  have "spread (JArray (map JString L)) = Inr (map JString L)"
    by (simp add: spread_def)
  from submitComment_persists [OF assms(1) this assms(2), of fd] assms(3)
  have run: "submitComment w fd =
    (Inr (), w\<lparr>comments_json := Some (Document (JArray (map JString (L @ [c])))),
               events := events w @ [Wrote (Document (JArray (map JString (L @ [c])))),
                                     Revalidated ''comments'']\<rparr>)"
    by (simp add: toJSON_def)
  show ?thesis
    by (simp add: run GET_def readFile_def getComments_served filterComments_def)
qed

text \<open>
  The log \<^verbatim>\<open>["first","second"]\<close> and the comment \<^verbatim>\<open>hello\<close>.
\<close>

theorem append_then_read_witness:
  "fst (submitComment \<lparr>comments_json = Some (Document (JArray (map JString [''first'', ''second'']))),
                      write_fault = None, events = []\<rparr> [(''comment'', Text ''hello'')]) = Inr ()
   \<and> getComments id (snd (submitComment
        \<lparr>comments_json = Some (Document (JArray (map JString [''first'', ''second'']))),
         write_fault = None, events = []\<rparr> [(''comment'', Text ''hello'')])) None
      = Inr (JArray [JString ''first'', JString ''second'', JString ''hello''])"
  using append_then_read [of "\<lparr>comments_json = Some (Document (JArray (map JString [''first'', ''second'']))),
                      write_fault = None, events = []\<rparr>" "[''first'', ''second'']"
      "[(''comment'', Text ''hello'')]" "''hello''" id]
  by (simp add: FormData_get_def)

text \<open>
  C3, as stated, fails: the claim has \<open>submitComment\<close> return a failure value when the write
  fails. On a log that is the empty array, with a write that fails on a full disk, the
  action ends with the exception of \<^verbatim>\<open>writeFile\<close> and returns no value.
\<close>

theorem write_failure_is_exception_counterexample:
  "fst (submitComment \<lparr>comments_json = Some (Document (JArray [])),
                       write_fault = Some FailsAfterTruncation, events = []\<rparr>
          [(''comment'', Text ''hello'')])
    = Inl IOError"
  by (simp add: submitComment_def readFile_def JSON_parse_def JSON_stringify_def spread_def
      writeFile_def)

text \<open>
  C3, amended. When the file was read and parsed and the write of the comment log fails,
  \<open>submitComment\<close> ends with the exception of the write: it returns no result value, and it
  does not invoke the invalidation signal (the trace is that of the start).
\<close>

theorem write_failure_raises:
  assumes "comments_json w = Some (Document x)" "spread x = Inr items" "write_fault w = Some f"
  shows "fst (submitComment w fd) = Inl IOError
    \<and> events (snd (submitComment w fd)) = events w"
  using submitComment_write_fails [OF assms, of fd]
  by (cases f) simp_all

text \<open>
  The log \<^verbatim>\<open>["first"]\<close>, the comment \<^verbatim>\<open>hello\<close> and a write that fails on a full disk.
\<close>

theorem write_failure_raises_witness:
  "fst (submitComment \<lparr>comments_json = Some (Document (JArray [JString ''first''])),
                       write_fault = Some FailsAfterTruncation, events = []\<rparr>
          [(''comment'', Text ''hello'')]) = Inl IOError
   \<and> events (snd (submitComment \<lparr>comments_json = Some (Document (JArray [JString ''first''])),
                       write_fault = Some FailsAfterTruncation, events = []\<rparr>
          [(''comment'', Text ''hello'')])) = []"
  using write_failure_raises [of "\<lparr>comments_json = Some (Document (JArray [JString ''first''])),
      write_fault = Some FailsAfterTruncation, events = []\<rparr>" "JArray [JString ''first'']"
      "[JString ''first'']" FailsAfterTruncation "[(''comment'', Text ''hello'')]"]
  by (simp add: spread_def)


text \<open>
  C4. For every submission whose name has 2 to 100 characters, whose email matches the
  pattern of the schema and whose feedback has 10 to 1000 characters, \<open>submitFeedback\<close>
  returns \<^verbatim>\<open>{ success: true }\<close>, and the parse of the schema carries no error.
\<close>

theorem valid_feedback_succeeds:
  assumes "FormData_get fd ''name'' = Some (Text name)" "2 \<le> length name" "length name \<le> 100"
    and "FormData_get fd ''email'' = Some (Text email)" "emailRegex email"
    and "FormData_get fd ''feedback'' = Some (Text feedback)"
      "10 \<le> length feedback" "length feedback \<le> 1000"
  shows "submitFeedback emailRegex prev fd = Inr Success
    \<and> error (safeParse emailRegex feedbackSchema (formValuesOf fd)) = None"
  using assms
  by (simp add: submitFeedback_cases safeParse_def issues_feedbackSchema ZodString_parse_def runCheck_def)

text \<open>
  A submission with a pattern that asks for an \<^verbatim>\<open>@\<close>.
\<close>

theorem valid_feedback_succeeds_witness:
  "submitFeedback (\<lambda>s. CHR ''@'' \<in> set s) ()
     [(''name'', Text ''Ada''), (''email'', Text ''ada@example.org''),
      (''feedback'', Text ''A useful form.'')] = Inr Success"
  using valid_feedback_succeeds [of "[(''name'', Text ''Ada''), (''email'', Text ''ada@example.org''),
      (''feedback'', Text ''A useful form.'')]" "''Ada''" "''ada@example.org''"
      "\<lambda>s. CHR ''@'' \<in> set s" "''A useful form.''" "()"]
  by (simp add: FormData_get_def)

text \<open>
  C5. For the submission \<^verbatim>\<open>{name: "A", email: "bad", feedback: "short"}\<close>, with a
  pattern that does not match \<^verbatim>\<open>bad\<close>, \<open>submitFeedback\<close> returns the failure with an
  error for each of the three fields (name too short, email malformed, feedback too short)
  and the three values as submitted; and whenever \<open>submitFeedback\<close> returns a failure, its
  values are the raw values of the three fields of the form.
\<close>

theorem invalid_feedback_reports_fields:
  "(\<not> emailRegex ''bad'' \<longrightarrow>
      (\<exists>errors. submitFeedback emailRegex prev
           [(''name'', Text ''A''), (''email'', Text ''bad''), (''feedback'', Text ''short'')]
         = Inr (Invalid errors
             [(''name'', Some (Text ''A'')), (''email'', Some (Text ''bad'')),
              (''feedback'', Some (Text ''short''))])
       \<and> errors ''name'' = Some [TooSmall 2]
       \<and> errors ''email'' = Some [InvalidEmail]
       \<and> errors ''feedback'' = Some [TooSmall 10]))
   \<and> (submitFeedback emailRegex prev fd = Inr (Invalid errs vals) \<longrightarrow>
        vals = [(''name'', FormData_get fd ''name''), (''email'', FormData_get fd ''email''),
                (''feedback'', FormData_get fd ''feedback'')])"
proof -
  let ?fd = "[(''name'', Text ''A''), (''email'', Text ''bad''), (''feedback'', Text ''short'')]"
  have issues: "\<not> emailRegex ''bad'' \<Longrightarrow> ZodObject_parse emailRegex feedbackSchema (formValuesOf ?fd) =
      [(''name'', TooSmall 2), (''email'', InvalidEmail), (''feedback'', TooSmall 10)]"
    by (simp add: issues_feedbackSchema ZodString_parse_def runCheck_def FormData_get_def)
  have first: "\<not> emailRegex ''bad'' \<Longrightarrow> submitFeedback emailRegex prev ?fd =
      Inr (Invalid (fieldErrors [(''name'', TooSmall 2), (''email'', InvalidEmail), (''feedback'', TooSmall 10)])
            (formValuesOf ?fd))"
    by (simp add: submitFeedback_cases issues)
  have second: "submitFeedback emailRegex prev fd = Inr (Invalid errs vals) \<Longrightarrow> vals = formValuesOf fd"
    by (simp add: submitFeedback_cases split: if_splits)
  show ?thesis
    using first second by (auto simp add: formValuesOf_def FormData_get_def fieldErrors_def)
qed

text \<open>
  The same submission with a pattern that asks for an \<^verbatim>\<open>@\<close>.
\<close>

theorem invalid_feedback_reports_fields_witness:
  "\<not> (\<lambda>s. CHR ''@'' \<in> set s) ''bad''
   \<and> submitFeedback (\<lambda>s. CHR ''@'' \<in> set s) ()
         [(''name'', Text ''A''), (''email'', Text ''bad''), (''feedback'', Text ''short'')]
       = Inr (Invalid
           (fieldErrors [(''name'', TooSmall 2), (''email'', InvalidEmail), (''feedback'', TooSmall 10)])
           [(''name'', Some (Text ''A'')), (''email'', Some (Text ''bad'')),
            (''feedback'', Some (Text ''short''))])
   \<and> fieldErrors [(''name'', TooSmall 2), (''email'', InvalidEmail), (''feedback'', TooSmall 10)]
         ''name'' = Some [TooSmall 2]
   \<and> fieldErrors [(''name'', TooSmall 2), (''email'', InvalidEmail), (''feedback'', TooSmall 10)]
         ''email'' = Some [InvalidEmail]
   \<and> fieldErrors [(''name'', TooSmall 2), (''email'', InvalidEmail), (''feedback'', TooSmall 10)]
         ''feedback'' = Some [TooSmall 10]"
proof -
  let ?pattern = "\<lambda>s. CHR ''@'' \<in> set s"
  let ?fd = "[(''name'', Text ''A''), (''email'', Text ''bad''), (''feedback'', Text ''short'')]"
  have rejected: "\<not> ?pattern ''bad''"
    by simp
  with invalid_feedback_reports_fields [of ?pattern "()"]
  obtain errors where
    run: "submitFeedback ?pattern () ?fd = Inr (Invalid errors
      [(''name'', Some (Text ''A'')), (''email'', Some (Text ''bad'')),
       (''feedback'', Some (Text ''short''))])"
    by blast
  have "submitFeedback ?pattern () ?fd = Inr (Invalid
      (fieldErrors [(''name'', TooSmall 2), (''email'', InvalidEmail), (''feedback'', TooSmall 10)])
      (formValuesOf ?fd))"
    by (simp add: submitFeedback_cases issues_feedbackSchema ZodString_parse_def runCheck_def
        FormData_get_def)
  moreover from invalid_feedback_reports_fields [of ?pattern "()" ?fd errors] run
  have "[(''name'', Some (Text ''A'')), (''email'', Some (Text ''bad'')),
       (''feedback'', Some (Text ''short''))] = formValuesOf ?fd"
    by (simp add: formValuesOf_def FormData_get_def)
  ultimately show ?thesis
    using rejected by (simp add: fieldErrors_def)
qed

text \<open>
  C6. The optimistic overlay of a base state \<open>b\<close> with a pending value \<open>v\<close> is \<open>b @ [v]\<close>
  (for the base \<^verbatim>\<open>["a","b"]\<close> and the value \<^verbatim>\<open>x\<close> it is \<^verbatim>\<open>["a","b","x"]\<close>); for
  successive pending values \<open>vs\<close> the overlay is \<open>b @ vs\<close>, in the order of submission, each
  new value being appended to the overlay of the values before it.
\<close>

theorem optimistic_overlay_appends:
  "updateFn b v = b @ [v]
   \<and> updateFn [''a'', ''b''] ''x'' = [''a'', ''b'', ''x'']
   \<and> optimisticComments b vs = b @ vs
   \<and> optimisticComments b (vs @ [v]) = updateFn (optimisticComments b vs) v"
proof -
  have "foldl updateFn c ws = c @ ws" for c ws :: "'a list"
    by (induction ws arbitrary: c) (simp_all add: updateFn_def)
  then show ?thesis
    by (simp add: optimisticComments_def useOptimistic_def updateFn_def)
qed

text \<open>
  C7. When the endpoint serves the records: with an absent or an empty query
  \<open>getComments\<close> returns all records in their order; with any other query it returns
  exactly the records whose lowercased value contains the lowercased query as a substring,
  in their original order, whatever the case mapping \<open>toLowerCase\<close> of the platform is. In
  particular, for a case mapping that maps \<^verbatim>\<open>Hello\<close> to \<^verbatim>\<open>hello\<close> and \<^verbatim>\<open>Help\<close> to
  \<^verbatim>\<open>help\<close> and leaves \<^verbatim>\<open>world\<close> and \<^verbatim>\<open>hel\<close> as they are, the records
  \<^verbatim>\<open>["Hello","world","Help"]\<close> filtered by \<^verbatim>\<open>hel\<close> are \<^verbatim>\<open>["Hello","Help"]\<close>.
\<close>

theorem getComments_filters:
  assumes "comments_json w = Some (Document (JArray (map JString records)))"
  shows "getComments toLowerCase w None = Inr (JArray (map JString records))
    \<and> getComments toLowerCase w (Some []) = Inr (JArray (map JString records))
    \<and> (q \<noteq> [] \<longrightarrow> getComments toLowerCase w (Some q) =
          Inr (JArray (map JString
            (filter (\<lambda>r. \<exists>pre post. toLowerCase r = pre @ toLowerCase q @ post) records))))
    \<and> (lower ''Hello'' = ''hello'' \<and> lower ''world'' = ''world'' \<and> lower ''Help'' = ''help''
          \<and> lower ''hel'' = ''hel'' \<longrightarrow>
        filterComments lower (JArray [JString ''Hello'', JString ''world'', JString ''Help''])
            (Some ''hel'')
          = Inr (JArray [JString ''Hello'', JString ''Help'']))"
proof -
  have served: "getComments toLowerCase w s
      = filterComments toLowerCase (JArray (map JString records)) s" for s
    using assms by (rule getComments_served)
  have example: "filterComments lower (JArray [JString ''Hello'', JString ''world'', JString ''Help''])
      (Some ''hel'') = Inr (JArray [JString ''Hello'', JString ''Help''])"
    if "lower ''Hello'' = ''hello''" "lower ''world'' = ''world''" "lower ''Help'' = ''help''"
      "lower ''hel'' = ''hel''"
    using that by (simp add: filterComments_def matchesQuery_def)
  have absent: "filterComments toLowerCase c None = Inr c"
    and empty: "filterComments toLowerCase c (Some []) = Inr c" for c
    by (simp_all add: filterComments_def)
  from example show ?thesis
    by (simp add: served absent empty filterComments_strings)
qed

text \<open>
  The records \<^verbatim>\<open>["Hello","world","Help"]\<close> served and the query \<^verbatim>\<open>hel\<close>, with a mapping
  that lowers the letter \<^verbatim>\<open>H\<close>.
\<close>

theorem getComments_filters_witness:
  "''hel'' \<noteq> [] \<and>
   getComments (map (\<lambda>c. if c = CHR ''H'' then CHR ''h'' else c))
       \<lparr>comments_json = Some (Document (JArray (map JString [''Hello'', ''world'', ''Help'']))),
        write_fault = None, events = []\<rparr> (Some ''hel'')
     = Inr (JArray [JString ''Hello'', JString ''Help''])
   \<and> filterComments (map (\<lambda>c. if c = CHR ''H'' then CHR ''h'' else c))
        (JArray [JString ''Hello'', JString ''world'', JString ''Help'']) (Some ''hel'')
     = Inr (JArray [JString ''Hello'', JString ''Help''])"
proof -
  let ?lower = "map (\<lambda>c. if c = CHR ''H'' then CHR ''h'' else c)"
  let ?w = "\<lparr>comments_json = Some (Document (JArray (map JString [''Hello'', ''world'', ''Help'']))),
             write_fault = None, events = []\<rparr>"
  have served: "comments_json ?w = Some (Document (JArray (map JString [''Hello'', ''world'', ''Help''])))"
    by simp
  have nonempty: "''hel'' \<noteq> []"
    by simp
  have maps: "?lower ''Hello'' = ''hello''" "?lower ''world'' = ''world''"
    "?lower ''Help'' = ''help''" "?lower ''hel'' = ''hel''"
    by simp_all
  have kept: "filter (\<lambda>r. \<exists>pre post. ?lower r = pre @ ?lower ''hel'' @ post)
      [''Hello'', ''world'', ''Help''] = [''Hello'', ''Help'']"
    unfolding String_includes_iff [symmetric] by simp
  note inst = getComments_filters [OF served, of ?lower "''hel''" ?lower]
  from inst nonempty
  have "getComments ?lower ?w (Some ''hel'') = Inr (JArray (map JString
      (filter (\<lambda>r. \<exists>pre post. ?lower r = pre @ ?lower ''hel'' @ post)
        [''Hello'', ''world'', ''Help''])))"
    by blast
  then have first: "getComments ?lower ?w (Some ''hel'')
      = Inr (JArray (map JString [''Hello'', ''Help'']))"
    by (simp only: kept)
  from inst maps
  have second: "filterComments ?lower (JArray [JString ''Hello'', JString ''world'', JString ''Help''])
      (Some ''hel'') = Inr (JArray [JString ''Hello'', JString ''Help''])"
    by blast
  from nonempty first second show ?thesis
    by simp
qed

text \<open>
  C8, as stated, fails for the endpoint: on a stored document that is malformed the handler
  \<open>GET\<close> reports no error. It answers with status 200 and the stored content as it is.
\<close>

theorem GET_serves_malformed_counterexample:
  "GET \<lparr>comments_json = Some (Malformed :: char document), write_fault = None, events = []\<rparr>
     = Inr \<lparr>status = 200, body = Malformed\<rparr>"
  by (simp add: GET_def readFile_def)

text \<open>
  C8, amended. When the stored document is one that \<^verbatim>\<open>JSON.parse\<close> rejects, the handler
  \<open>GET\<close> answers with the stored content unchanged and reports no error; the corruption is
  reported where the content is parsed. \<open>submitComment\<close> ends with a \<^verbatim>\<open>SyntaxError\<close> and
  leaves the state as it was. The read of the pages (\<open>getComments\<close>, for every query) ends
  with a \<^verbatim>\<open>SyntaxError\<close> when the text is not JSON even without a byte order mark at its
  start; when the text is a byte order mark followed by a JSON text, it does not report the
  mark: it returns what it returns for that JSON text. No default value is put in the place
  of the stored content.
\<close>

theorem malformed_reported_by_parsers:
  "(comments_json w = Some Malformed \<longrightarrow>
      GET w = Inr \<lparr>status = 200, body = Malformed\<rparr>
      \<and> getComments toLowerCase w q = Inl SyntaxError
      \<and> submitComment w fd = (Inl SyntaxError, w))
   \<and> (comments_json w = Some (WithBOM v) \<longrightarrow>
      GET w = Inr \<lparr>status = 200, body = WithBOM v\<rparr>
      \<and> getComments toLowerCase w q = filterComments toLowerCase v q
      \<and> submitComment w fd = (Inl SyntaxError, w))"
  by (simp add: GET_def readFile_def getComments_def fetch_def response_json_def JSON_parse_def
      submitComment_def)

text \<open>
  A text that is not JSON, and a byte order mark followed by \<^verbatim>\<open>["first"]\<close>: both read
  with no query and submitted to.
\<close>

theorem malformed_reported_by_parsers_witness:
  "getComments id \<lparr>comments_json = Some Malformed, write_fault = None, events = []\<rparr> None
      = (Inl SyntaxError :: exn + char json)
   \<and> submitComment \<lparr>comments_json = Some Malformed, write_fault = None, events = []\<rparr>
        [(''comment'', Text ''hello'')]
      = (Inl SyntaxError, \<lparr>comments_json = Some Malformed, write_fault = None, events = []\<rparr>)
   \<and> getComments id \<lparr>comments_json = Some (WithBOM (JArray [JString ''first''])),
                      write_fault = None, events = []\<rparr> None
      = Inr (JArray [JString ''first''])
   \<and> submitComment \<lparr>comments_json = Some (WithBOM (JArray [JString ''first''])),
                     write_fault = None, events = []\<rparr> [(''comment'', Text ''hello'')]
      = (Inl SyntaxError, \<lparr>comments_json = Some (WithBOM (JArray [JString ''first''])),
                           write_fault = None, events = []\<rparr>)"
  using malformed_reported_by_parsers [of "\<lparr>comments_json = Some Malformed, write_fault = None,
      events = []\<rparr>" id None "[(''comment'', Text ''hello'')]" "JArray []"]
    malformed_reported_by_parsers [of "\<lparr>comments_json = Some (WithBOM (JArray [JString ''first''])),
      write_fault = None, events = []\<rparr>" id None "[(''comment'', Text ''hello'')]"
      "JArray [JString ''first'']"]
  by (simp add: filterComments_def)

text \<open>
  C9. For every record sequence, the filter with the empty query returns the records
  unchanged; applying it to its own result returns the same again; and it returns what the
  filter with an absent query returns. For every state of the store, \<open>getComments\<close> with
  the empty query and with an absent query agree.
\<close>

theorem empty_query_is_identity:
  "filterComments toLowerCase (JArray (map JString records)) (Some [])
       = Inr (JArray (map JString records))
   \<and> (case filterComments toLowerCase (JArray (map JString records)) (Some []) of
         Inl e \<Rightarrow> Inl e
       | Inr once \<Rightarrow> filterComments toLowerCase once (Some []))
       = filterComments toLowerCase (JArray (map JString records)) (Some [])
   \<and> filterComments toLowerCase (JArray (map JString records)) (Some [])
       = filterComments toLowerCase (JArray (map JString records)) None
   \<and> getComments toLowerCase w (Some []) = getComments toLowerCase w None"
proof -
  have falsy: "filterComments toLowerCase comments (Some []) = Inr comments"
    and absent: "filterComments toLowerCase comments None = Inr comments" for comments
    by (simp_all add: filterComments_def)
  have "getComments toLowerCase w (Some []) = getComments toLowerCase w None"
    by (simp add: getComments_def falsy absent split: sum.splits)
  then show ?thesis
    by (simp add: falsy absent)
qed

text \<open>
  C10. For every submission \<open>submitFeedback\<close> ends normally, with \<^verbatim>\<open>{ success: true }\<close>
  or with \<^verbatim>\<open>{ errors, values }\<close>, and never with an exception; a submission in which
  the name, the email or the feedback is absent (\<^verbatim>\<open>null\<close>) returns
  \<^verbatim>\<open>{ errors, values }\<close> with the error of a value that is not a string for that field.
\<close>

theorem submitFeedback_never_throws:
  "(submitFeedback emailRegex prev fd = Inr Success
      \<or> (\<exists>errors. submitFeedback emailRegex prev fd = Inr (Invalid errors (formValuesOf fd))))
   \<and> (FormData_get fd ''name'' = None \<longrightarrow>
        (\<exists>errors. submitFeedback emailRegex prev fd = Inr (Invalid errors (formValuesOf fd))
           \<and> errors ''name'' = Some [InvalidType]))
   \<and> (FormData_get fd ''email'' = None \<longrightarrow>
        (\<exists>errors. submitFeedback emailRegex prev fd = Inr (Invalid errors (formValuesOf fd))
           \<and> errors ''email'' = Some [InvalidType]))
   \<and> (FormData_get fd ''feedback'' = None \<longrightarrow>
        (\<exists>errors. submitFeedback emailRegex prev fd = Inr (Invalid errors (formValuesOf fd))
           \<and> errors ''feedback'' = Some [InvalidType]))"
proof -
  have returns: "submitFeedback emailRegex prev fd = Inr Success
      \<or> (\<exists>errors. submitFeedback emailRegex prev fd = Inr (Invalid errors (formValuesOf fd)))"
    by (simp add: submitFeedback_cases)
  have absent_name: "\<exists>errors. submitFeedback emailRegex prev fd = Inr (Invalid errors (formValuesOf fd))
      \<and> errors ''name'' = Some [InvalidType]" if "FormData_get fd ''name'' = None"
    using that
    by (simp add: submitFeedback_cases issues_feedbackSchema fieldErrors_def ZodString_parse_def)
  have absent_email: "\<exists>errors. submitFeedback emailRegex prev fd = Inr (Invalid errors (formValuesOf fd))
      \<and> errors ''email'' = Some [InvalidType]" if "FormData_get fd ''email'' = None"
    using that
    by (simp add: submitFeedback_cases issues_feedbackSchema fieldErrors_def ZodString_parse_def)
  have absent_feedback: "\<exists>errors. submitFeedback emailRegex prev fd = Inr (Invalid errors (formValuesOf fd))
      \<and> errors ''feedback'' = Some [InvalidType]" if "FormData_get fd ''feedback'' = None"
    using that
    by (simp add: submitFeedback_cases issues_feedbackSchema fieldErrors_def ZodString_parse_def)
  from returns absent_name absent_email absent_feedback show ?thesis
    by blast
qed

text \<open>
  The empty submission: all three fields are absent.
\<close>

theorem submitFeedback_never_throws_witness:
  "\<exists>errors. submitFeedback (\<lambda>s. CHR ''@'' \<in> set s) () []
      = Inr (Invalid errors [(''name'', None), (''email'', None), (''feedback'', None)])
     \<and> errors ''name'' = Some [InvalidType]
     \<and> errors ''email'' = Some [InvalidType]
     \<and> errors ''feedback'' = Some [InvalidType]"
  using submitFeedback_never_throws [of "\<lambda>s. CHR ''@'' \<in> set s" "()" "[]"]
  by (auto simp add: FormData_get_def formValuesOf_def)

end
